theory Spec2Isabelle
  imports Complex_Main
begin

section \<open>Data model\<close>

text \<open>
  The three pages (Home, NewRequest, Profile) import their entity types from
  \<^verbatim>\<open>@/types\<close> and the Data Gateway from \<^verbatim>\<open>@/services/api\<close>. A JavaScript string is a
  \<^typ>\<open>string\<close> (the list of its code units), a JavaScript number is the \<^typ>\<open>real\<close> it
  denotes, and a property that may be \<^verbatim>\<open>undefined\<close> is an \<^typ>\<open>'a option\<close>.
\<close>

text \<open>
  Modelled from the spec: the enum \<^verbatim>\<open>UserRole\<close> of \<^verbatim>\<open>@/types\<close>. The spec names the roles
  donor, requester and administrator; the pages refer to them as \<^verbatim>\<open>UserRole.DONOR\<close>,
  \<^verbatim>\<open>UserRole.REQUESTER\<close> and \<^verbatim>\<open>UserRole.ADMIN\<close>.
\<close>

datatype UserRole = DONOR | REQUESTER | ADMIN

text \<open>
  Modelled from the spec: the type \<^verbatim>\<open>Location\<close> of \<^verbatim>\<open>@/types\<close>, with the properties of the
  placeholder literal in \<^verbatim>\<open>NewRequest.onSubmit\<close>.
\<close>

record Location =
  latitude :: real
  longitude :: real
  address :: string
  city :: string
  state :: string
  zipCode :: string
  country :: string

text \<open>
  Modelled from the spec: the type \<^verbatim>\<open>User\<close> of \<^verbatim>\<open>@/types\<close>, with the properties the pages
  read. A blood type is a value of the string enum \<^verbatim>\<open>BloodType\<close>.
\<close>

record User =
  id' :: string
  name :: string
  email :: string
  role :: UserRole
  phoneNumber :: "string option"
  bloodType :: "string option"
  location :: "Location option"

text \<open>
  Modelled from the spec: the type \<^verbatim>\<open>BloodRequest\<close> of \<^verbatim>\<open>@/types\<close>. The urgency is a value
  of the string enum \<^verbatim>\<open>UrgencyLevel\<close>; the dashboard compares it with string literals.
\<close>

record BloodRequest =
  id' :: string
  requesterId :: string
  requesterName :: string
  bloodType :: string
  quantity :: real
  urgency :: string
  status :: string
  location :: Location
  "notes" :: "string option"

text \<open>
  Modelled from the spec: the type \<^verbatim>\<open>Appointment\<close> of \<^verbatim>\<open>@/types\<close>. The field \<open>date\<close> holds
  the time value (milliseconds since the epoch) of \<^verbatim>\<open>new Date(appointment.date)\<close>;
  \<open>None\<close> is the Invalid Date, whose time value is NaN.
\<close>

record Appointment =
  id' :: string
  donorId :: string
  date :: "int option"

text \<open>Modelled from the spec: the type \<^verbatim>\<open>Notification\<close> of \<^verbatim>\<open>@/types\<close>.\<close>

record Notification =
  id' :: string
  read :: bool

section \<open>Home: the dashboard's derived collections\<close>

text \<open>
  \<^verbatim>\<open>
  let filteredRequests = requests;
  let filteredAppointments = appointments;
  if (user.role === UserRole.DONOR) {
    filteredAppointments = appointments.filter((appointment) => appointment.donorId === user.id);
  } else if (user.role === UserRole.REQUESTER) {
    filteredRequests = requests.filter((request) => request.requesterId === user.id);
  }
  \<close>
\<close>

definition filteredRequests :: "User \<Rightarrow> BloodRequest list \<Rightarrow> BloodRequest list" where
  "filteredRequests user requests =
     (if role user = DONOR then requests
      else if role user = REQUESTER
        then filter (\<lambda>request. requesterId request = User.id' user) requests
      else requests)"

definition filteredAppointments :: "User \<Rightarrow> Appointment list \<Rightarrow> Appointment list" where
  "filteredAppointments user appointments =
     (if role user = DONOR
        then filter (\<lambda>appointment. donorId appointment = User.id' user) appointments
      else if role user = REQUESTER then appointments
      else appointments)"

text \<open>
  \<^verbatim>\<open>
  const urgentRequests = filteredRequests.filter(
    (request) => request.urgency === "high" || request.urgency === "critical");
  \<close>
\<close>

definition urgentRequests :: "BloodRequest list \<Rightarrow> BloodRequest list" where
  "urgentRequests frs =
     filter (\<lambda>request. urgency request = ''high'' \<or> urgency request = ''critical'') frs"

text \<open>
  \<^verbatim>\<open>new Date(appointment.date) > new Date()\<close> compares the two time values as numbers. The
  right-hand date is never invalid; a comparison with NaN on the left is false.
\<close>

fun date_gt :: "int option \<Rightarrow> int \<Rightarrow> bool" where
  "date_gt None t = False"
| "date_gt (Some d) t = (t < d)"

text \<open>
  \<^verbatim>\<open>
  const upcomingAppointments = filteredAppointments.filter(
    (appointment) => new Date(appointment.date) > new Date());
  \<close>
  The callback reads the clock anew at every element: \<open>clock i\<close> is the time value that
  \<^verbatim>\<open>new Date()\<close> yields in the call for the element at index \<open>i\<close>.
\<close>

definition upcomingAppointments :: "(nat \<Rightarrow> int) \<Rightarrow> Appointment list \<Rightarrow> Appointment list" where
  "upcomingAppointments clock fas =
     map fst (filter (\<lambda>(appointment, i). date_gt (date appointment) (clock i))
       (zip fas [0..<length fas]))"

text \<open>\<^verbatim>\<open>const unreadNotifications = notifications.filter((n) => !n.read);\<close>\<close>

definition unreadNotifications :: "Notification list \<Rightarrow> Notification list" where
  "unreadNotifications notifications = filter (\<lambda>n. \<not> read n) notifications"

section \<open>The Data Gateway and the pages' effects\<close>

text \<open>
  The request form's validated data (\<^verbatim>\<open>RequestFormData = z.infer<typeof requestSchema>\<close>) and
  the raw values the resolver receives from the form, where any field may still be
  \<^verbatim>\<open>undefined\<close>.
\<close>

record RequestFormValues =
  bloodType :: "string option"
  quantity :: "real option"
  urgency :: "string option"
  "notes" :: "string option"
  expireAt :: "string option"

record RequestFormData =
  bloodType :: string
  quantity :: real
  urgency :: string
  "notes" :: "string option"
  expireAt :: "string option"

text \<open>\<^verbatim>\<open>new Date(s)\<close>, kept as the string it was built from.\<close>

datatype jsdate = NewDate string

text \<open>The argument of \<^verbatim>\<open>api.createBloodRequest\<close>, as \<^verbatim>\<open>NewRequest.onSubmit\<close> builds it.\<close>

record CreatePayload =
  requesterId :: string
  requesterName :: string
  bloodType :: string
  quantity :: real
  urgency :: string
  location :: Location
  status :: string
  "notes" :: "string option"
  expireAt :: "jsdate option"

text \<open>
  The profile form's validated data (\<^verbatim>\<open>ProfileFormData = z.infer<typeof profileSchema>\<close>)
  and the raw values the resolver receives.
\<close>

record ProfileFormValues =
  name :: "string option"
  email :: "string option"
  phoneNumber :: "string option"
  address :: "string option"
  city :: "string option"
  state :: "string option"
  zipCode :: "string option"
  country :: "string option"
  bloodType :: "string option"

record ProfileFormData =
  name :: string
  email :: string
  phoneNumber :: "string option"
  address :: "string option"
  city :: "string option"
  state :: "string option"
  zipCode :: "string option"
  country :: "string option"
  bloodType :: "string option"

text \<open>
  The \<^verbatim>\<open>location\<close> object of the argument of \<^verbatim>\<open>api.updateUser\<close>: the spread of the
  user's location (or of \<^verbatim>\<open>{ latitude: 0, longitude: 0 }\<close>), with the five address
  properties overwritten by the form's, each of which may be \<^verbatim>\<open>undefined\<close>.
\<close>

record LocationUpdate =
  latitude :: real
  longitude :: real
  address :: "string option"
  city :: "string option"
  state :: "string option"
  zipCode :: "string option"
  country :: "string option"

record UpdatePayload =
  name :: string
  email :: string
  phoneNumber :: "string option"
  location :: LocationUpdate
  bloodType :: "string option"

text \<open>A promise that has settled: with a value, or rejected.\<close>

datatype 'a promise = Resolved 'a | Rejected

text \<open>
  Modelled from the spec: the Data Gateway \<^verbatim>\<open>api\<close> of \<^verbatim>\<open>@/services/api\<close>, by the five
  operations of the spec's contract. Each operation is given by the promise it returns.
\<close>

record Gateway =
  getBloodRequests :: "BloodRequest list promise"
  getAppointments :: "Appointment list promise"
  getNotifications :: "string \<Rightarrow> Notification list promise"
  createBloodRequest :: "CreatePayload \<Rightarrow> BloodRequest promise"
  updateUser :: "string \<Rightarrow> UpdatePayload \<Rightarrow> User promise"

text \<open>The calls a page makes to the gateway, in the order it makes them.\<close>

datatype gateway_call =
    GetBloodRequests
  | GetAppointments
  | GetNotifications string
  | CreateBloodRequest CreatePayload
  | UpdateUser string UpdatePayload

text \<open>The argument of \<^verbatim>\<open>toast\<close>.\<close>

record ToastProps =
  title :: string
  description :: string
  variant :: "string option"

section \<open>Home: fetching the dashboard's data\<close>

text \<open>
  The component's state (\<^verbatim>\<open>useState\<close>), with the gateway calls made and the lines
  written by \<^verbatim>\<open>console.error\<close>. The component has no other state, and no toast.
\<close>

record HomeState =
  requests :: "BloodRequest list"
  appointments :: "Appointment list"
  notifications :: "Notification list"
  loading :: bool
  calls :: "gateway_call list"
  console :: "string list"

text \<open>The state a mounted \<^verbatim>\<open>Home\<close> starts from.\<close>

definition Home_initial :: HomeState where
  "Home_initial =
     \<lparr>requests = [], appointments = [], notifications = [], loading = True,
      calls = [], console = []\<rparr>"

text \<open>
  \<^verbatim>\<open>
  try {
    if (user) {
      const [requestsData, appointmentsData] = await Promise.all([
        api.getBloodRequests(), api.getAppointments()]);
      if (user.id) {
        const notificationsData = await api.getNotifications(user.id);
        setNotifications(notificationsData);
      }
      setRequests(requestsData);
      setAppointments(appointmentsData);
    }
  } catch (error) {
    console.error("Error fetching dashboard data:", error);
  } finally {
    setLoading(false);
  }
  \<close>
  Both calls of \<^verbatim>\<open>Promise.all\<close> are made before either is awaited; the combined promise
  rejects when one of them does. An empty \<^verbatim>\<open>user.id\<close> is falsy.
\<close>

definition fetchData :: "Gateway \<Rightarrow> User option \<Rightarrow> HomeState \<Rightarrow> HomeState" where
  "fetchData api user s =
     (let caught =
            (\<lambda>t::HomeState. t\<lparr>console := console t @ [''Error fetching dashboard data:'']\<rparr>);
          s' =
            (case user of
               None \<Rightarrow> s
             | Some u \<Rightarrow>
                 (let s1 = s\<lparr>HomeState.calls :=
                              HomeState.calls s @ [GetBloodRequests, GetAppointments]\<rparr>
                  in case (getBloodRequests api, getAppointments api) of
                       (Resolved requestsData, Resolved appointmentsData) \<Rightarrow>
                         (if User.id' u \<noteq> []
                          then
                            (let s2 = s1\<lparr>HomeState.calls :=
                                         HomeState.calls s1 @ [GetNotifications (User.id' u)]\<rparr>
                             in case getNotifications api (User.id' u) of
                                  Resolved notificationsData \<Rightarrow>
                                    s2\<lparr>notifications := notificationsData,
                                       requests := requestsData,
                                       appointments := appointmentsData\<rparr>
                                | Rejected \<Rightarrow> caught s2)
                          else s1\<lparr>requests := requestsData, appointments := appointmentsData\<rparr>)
                     | _ \<Rightarrow> caught s1))
      in s'\<lparr>loading := False\<rparr>)"

text \<open>What a JSX expression renders: a string, or a number.\<close>

datatype display = Text string | Number nat

text \<open>
  The figure of the third stat card:
  \<^verbatim>\<open>{user.role === UserRole.ADMIN ? "4" : unreadNotifications.length}\<close>.
\<close>

definition statCard3 :: "User \<Rightarrow> HomeState \<Rightarrow> display" where
  "statCard3 user s =
     (if role user = ADMIN then Text ''4''
      else Number (length (unreadNotifications (notifications s))))"

section \<open>Form validation (zod schemas behind \<^verbatim>\<open>zodResolver\<close>)\<close>

text \<open>
  The message of a validation issue: one the schema gives, or one of the library's defaults,
  whose wording is the library's.
\<close>

datatype message = Custom string | Required | Invalid_enum_value

text \<open>An issue is reported at the field (path) it belongs to.\<close>

type_synonym issue = "string \<times> message"

definition at_field :: "string \<Rightarrow> message list + 'a \<Rightarrow> issue list" where
  "at_field path r = (case r of Inl ms \<Rightarrow> map (Pair path) ms | Inr _ \<Rightarrow> [])"

text \<open>
  Modelled from the spec: the values of the string enum \<^verbatim>\<open>UrgencyLevel\<close> of \<^verbatim>\<open>@/types\<close>
  (low, medium, high, critical). The values of \<^verbatim>\<open>BloodType\<close> are named nowhere; the schemas
  take them as the parameter \<open>BloodType\<close>.
\<close>

definition UrgencyLevel :: "string list" where
  "UrgencyLevel = [''low'', ''medium'', ''high'', ''critical'']"

text \<open>
  Modelled from the spec: the member \<^verbatim>\<open>UrgencyLevel.MEDIUM\<close> of that enum is the string
  \<^verbatim>\<open>"medium"\<close>.
\<close>

definition UrgencyLevel_MEDIUM :: string where
  "UrgencyLevel_MEDIUM = ''medium''"

text \<open>
  \<^verbatim>\<open>z.nativeEnum(E, { required_error })\<close>: \<^verbatim>\<open>undefined\<close> is reported with the required
  message, a value that is not one of the enum's with the library's own message.
\<close>

definition nativeEnum :: "string list \<Rightarrow> message \<Rightarrow> string option \<Rightarrow> message list + string" where
  "nativeEnum values required_error v =
     (case v of
        None \<Rightarrow> Inl [required_error]
      | Some x \<Rightarrow> if x \<in> set values then Inr x else Inl [Invalid_enum_value])"

text \<open>
  \<^verbatim>\<open>z.number().min(lo, { message }).max(hi, { message })\<close>: both checks run, the bounds
  are inclusive (\<^verbatim>\<open>min\<close> reports \<^verbatim>\<open>data < lo\<close>, \<^verbatim>\<open>max\<close> reports \<^verbatim>\<open>data > hi\<close>), and nothing
  asks for an integer. The numbers of the model are the finite ones; \<^verbatim>\<open>z.number()\<close> reports
  NaN as an invalid type, and an infinity fails one of the two bounds.
\<close>

definition number_min_max ::
    "real \<Rightarrow> string \<Rightarrow> real \<Rightarrow> string \<Rightarrow> real option \<Rightarrow> message list + real" where
  "number_min_max lo lo_message hi hi_message v =
     (case v of
        None \<Rightarrow> Inl [Required]
      | Some q \<Rightarrow>
          (case (if q < lo then [Custom lo_message] else []) @
                (if hi < q then [Custom hi_message] else []) of
             [] \<Rightarrow> Inr q
           | ms \<Rightarrow> Inl ms))"

text \<open>\<^verbatim>\<open>z.string().optional()\<close>: \<^verbatim>\<open>undefined\<close> and every string pass.\<close>

definition string_optional :: "string option \<Rightarrow> message list + string option" where
  "string_optional v = Inr v"

text \<open>\<^verbatim>\<open>z.string().min(n, { message })\<close>.\<close>

definition string_min :: "nat \<Rightarrow> string \<Rightarrow> string option \<Rightarrow> message list + string" where
  "string_min n min_message v =
     (case v of
        None \<Rightarrow> Inl [Required]
      | Some x \<Rightarrow> if length x < n then Inl [Custom min_message] else Inr x)"

text \<open>
  \<^verbatim>\<open>z.string().email({ message })\<close>. The library's email pattern is the parameter
  \<open>isEmail\<close>.
\<close>

definition string_email :: "(string \<Rightarrow> bool) \<Rightarrow> string \<Rightarrow> string option \<Rightarrow> message list + string" where
  "string_email isEmail email_message v =
     (case v of
        None \<Rightarrow> Inl [Required]
      | Some x \<Rightarrow> if isEmail x then Inr x else Inl [Custom email_message])"

text \<open>\<^verbatim>\<open>z.nativeEnum(E).optional()\<close>.\<close>

definition nativeEnum_optional :: "string list \<Rightarrow> string option \<Rightarrow> message list + string option" where
  "nativeEnum_optional values v =
     (case v of
        None \<Rightarrow> Inr None
      | Some x \<Rightarrow> if x \<in> set values then Inr (Some x) else Inl [Invalid_enum_value])"

text \<open>
  \<^verbatim>\<open>
  const requestSchema = z.object({
    bloodType: z.nativeEnum(BloodType, { required_error: "Please select a blood type" }),
    quantity: z.number().min(1, { message: "Quantity must be at least 1 unit" })
                        .max(10, { message: "Quantity cannot exceed 10 units" }),
    urgency: z.nativeEnum(UrgencyLevel, { required_error: "Please select an urgency level" }),
    notes: z.string().optional(),
    expireAt: z.string().optional(),
  });
  \<close>
  Parsing gives the validated data, or the issues of all fields.
\<close>

definition requestSchema :: "string list \<Rightarrow> RequestFormValues \<Rightarrow> issue list + RequestFormData" where
  "requestSchema BloodType v =
     (let b = nativeEnum BloodType (Custom ''Please select a blood type'')
                (RequestFormValues.bloodType v);
          q = number_min_max 1 ''Quantity must be at least 1 unit''
                10 ''Quantity cannot exceed 10 units'' (RequestFormValues.quantity v);
          u = nativeEnum UrgencyLevel (Custom ''Please select an urgency level'')
                (RequestFormValues.urgency v);
          n = string_optional (RequestFormValues.notes v);
          e = string_optional (RequestFormValues.expireAt v)
      in case (b, q, u, n, e) of
           (Inr b', Inr q', Inr u', Inr n', Inr e') \<Rightarrow>
             Inr \<lparr>RequestFormData.bloodType = b', quantity = q', urgency = u',
                  notes = n', expireAt = e'\<rparr>
         | _ \<Rightarrow>
             Inl (at_field ''bloodType'' b @ at_field ''quantity'' q @ at_field ''urgency'' u @
                  at_field ''notes'' n @ at_field ''expireAt'' e))"

text \<open>
  \<^verbatim>\<open>
  const profileSchema = z.object({
    name: z.string().min(2, { message: "Name must be at least 2 characters" }),
    email: z.string().email({ message: "Please enter a valid email" }),
    phoneNumber: z.string().optional(),
    address: z.string().optional(),
    city: z.string().optional(),
    state: z.string().optional(),
    zipCode: z.string().optional(),
    country: z.string().optional(),
    bloodType: z.nativeEnum(BloodType).optional(),
  });
  \<close>
\<close>

definition profileSchema ::
    "(string \<Rightarrow> bool) \<Rightarrow> string list \<Rightarrow> ProfileFormValues \<Rightarrow> issue list + ProfileFormData" where
  "profileSchema isEmail BloodType v =
     (let n = string_min 2 ''Name must be at least 2 characters'' (ProfileFormValues.name v);
          e = string_email isEmail ''Please enter a valid email'' (ProfileFormValues.email v);
          p = string_optional (ProfileFormValues.phoneNumber v);
          a = string_optional (ProfileFormValues.address v);
          c = string_optional (ProfileFormValues.city v);
          s = string_optional (ProfileFormValues.state v);
          z = string_optional (ProfileFormValues.zipCode v);
          k = string_optional (ProfileFormValues.country v);
          b = nativeEnum_optional BloodType (ProfileFormValues.bloodType v)
      in case (n, e, p, a, c, s, z, k, b) of
           (Inr n', Inr e', Inr p', Inr a', Inr c', Inr s', Inr z', Inr k', Inr b') \<Rightarrow>
             Inr \<lparr>ProfileFormData.name = n', email = e', phoneNumber = p', address = a',
                  city = c', state = s', zipCode = z', country = k', bloodType = b'\<rparr>
         | _ \<Rightarrow>
             Inl (at_field ''name'' n @ at_field ''email'' e @ at_field ''phoneNumber'' p @
                  at_field ''address'' a @ at_field ''city'' c @ at_field ''state'' s @
                  at_field ''zipCode'' z @ at_field ''country'' k @ at_field ''bloodType'' b))"

section \<open>NewRequest: submitting the request form\<close>

text \<open>
  The page's state: the submitting flag, the form's field values and field errors (held by
  \<^verbatim>\<open>useForm\<close>), and what the page has done so far: its gateway calls, its toasts and its
  navigations.
\<close>

record NewRequestState =
  isSubmitting :: bool
  form :: RequestFormValues
  errors :: "issue list"
  calls :: "gateway_call list"
  toasts :: "ToastProps list"
  navigations :: "string list"

text \<open>
  The page starts idle, with the form's default values
  \<^verbatim>\<open>defaultValues: { quantity: 1, urgency: UrgencyLevel.MEDIUM, notes: "" }\<close>: no blood type
  is selected yet.
\<close>

definition NewRequest_defaultValues :: RequestFormValues where
  "NewRequest_defaultValues =
     \<lparr>RequestFormValues.bloodType = None, quantity = Some 1,
      urgency = Some UrgencyLevel_MEDIUM, notes = Some [], expireAt = None\<rparr>"

definition NewRequest_initial :: NewRequestState where
  "NewRequest_initial =
     \<lparr>isSubmitting = False, form = NewRequest_defaultValues, errors = [], calls = [],
      toasts = [], navigations = []\<rparr>"

text \<open>
  Modelled from the spec: the member \<^verbatim>\<open>RequestStatus.PENDING\<close> of the enum
  \<^verbatim>\<open>RequestStatus\<close> of \<^verbatim>\<open>@/types\<close> is the string \<^verbatim>\<open>"pending"\<close>.
\<close>

definition RequestStatus_PENDING :: string where
  "RequestStatus_PENDING = ''pending''"

text \<open>
  The argument of \<^verbatim>\<open>api.createBloodRequest\<close>:
  \<^verbatim>\<open>
  { requesterId: user.id, requesterName: user.name,
    bloodType: data.bloodType, quantity: data.quantity, urgency: data.urgency,
    location: user.location || { latitude: 0, longitude: 0, address: "Unknown",
      city: "Unknown", state: "Unknown", zipCode: "00000", country: "Unknown" },
    status: RequestStatus.PENDING,
    notes: data.notes,
    expireAt: data.expireAt ? new Date(data.expireAt) : undefined }
  \<close>
  An empty \<^verbatim>\<open>data.expireAt\<close> is falsy.
\<close>

definition NewRequest_payload :: "User \<Rightarrow> RequestFormData \<Rightarrow> CreatePayload" where
  "NewRequest_payload user data =
     \<lparr>CreatePayload.requesterId = User.id' user,
      requesterName = User.name user,
      bloodType = RequestFormData.bloodType data,
      quantity = RequestFormData.quantity data,
      urgency = RequestFormData.urgency data,
      location =
        (case User.location user of
           Some l \<Rightarrow> l
         | None \<Rightarrow>
             \<lparr>Location.latitude = 0, longitude = 0, address = ''Unknown'', city = ''Unknown'',
              state = ''Unknown'', zipCode = ''00000'', country = ''Unknown''\<rparr>),
      status = RequestStatus_PENDING,
      notes = RequestFormData.notes data,
      expireAt =
        (case RequestFormData.expireAt data of
           None \<Rightarrow> None
         | Some d \<Rightarrow> if d = [] then None else Some (NewDate d))\<rparr>"

text \<open>
  \<^verbatim>\<open>
  const onSubmit = async (data: RequestFormData) => {
    if (!user) return;
    try {
      setIsSubmitting(true);
      await api.createBloodRequest({ ... });
      toast({ title: "Request created",
              description: "Your blood request has been successfully created." });
      navigate("/requests");
    } catch (error) {
      toast({ title: "Error", description: "There was a problem creating your request.",
              variant: "destructive" });
    } finally {
      setIsSubmitting(false);
    }
  };
  \<close>
\<close>

definition NewRequest_onSubmit ::
    "Gateway \<Rightarrow> User option \<Rightarrow> RequestFormData \<Rightarrow> NewRequestState \<Rightarrow> NewRequestState" where
  "NewRequest_onSubmit api user data s =
     (case user of
        None \<Rightarrow> s
      | Some u \<Rightarrow>
          (let s1 = s\<lparr>isSubmitting := True\<rparr>;
               payload = NewRequest_payload u data;
               s2 = s1\<lparr>NewRequestState.calls :=
                        NewRequestState.calls s1 @ [CreateBloodRequest payload]\<rparr>;
               s3 =
                 (case createBloodRequest api payload of
                    Resolved _ \<Rightarrow>
                      s2\<lparr>toasts := toasts s2 @
                            [\<lparr>title = ''Request created'',
                              description = ''Your blood request has been successfully created.'',
                              variant = None\<rparr>],
                         navigations := navigations s2 @ [''/requests'']\<rparr>
                  | Rejected \<Rightarrow>
                      s2\<lparr>toasts := toasts s2 @
                            [\<lparr>title = ''Error'',
                              description = ''There was a problem creating your request.'',
                              variant = Some ''destructive''\<rparr>]\<rparr>)
           in s3\<lparr>isSubmitting := False\<rparr>))"

text \<open>
  \<^verbatim>\<open><form onSubmit={form.handleSubmit(onSubmit)}>\<close>: the resolver parses the form's
  values with \<^verbatim>\<open>requestSchema\<close>; \<^verbatim>\<open>onSubmit\<close> is called with the parsed data only when there
  is no issue, otherwise the issues become the form's field errors. The page renders the
  form whether or not a user is signed in.
\<close>

definition NewRequest_handleSubmit ::
    "string list \<Rightarrow> Gateway \<Rightarrow> User option \<Rightarrow> NewRequestState \<Rightarrow> NewRequestState" where
  "NewRequest_handleSubmit BloodType api user s =
     (case requestSchema BloodType (NewRequestState.form s) of
        Inl issues \<Rightarrow> s\<lparr>NewRequestState.errors := issues\<rparr>
      | Inr data \<Rightarrow> NewRequest_onSubmit api user data (s\<lparr>NewRequestState.errors := []\<rparr>))"

section \<open>Profile: submitting the profile form\<close>

record ProfileState =
  isUpdating :: bool
  form :: ProfileFormValues
  errors :: "issue list"
  calls :: "gateway_call list"
  toasts :: "ToastProps list"

text \<open>
  The form's default values are taken from the session's user:
  \<^verbatim>\<open>
  defaultValues: {
    name: user?.name || "", email: user?.email || "",
    phoneNumber: user?.phoneNumber || "",
    address: user?.location?.address || "", city: user?.location?.city || "",
    state: user?.location?.state || "", zipCode: user?.location?.zipCode || "",
    country: user?.location?.country || "",
    bloodType: user?.bloodType }
  \<close>
\<close>

definition Profile_defaultValues :: "User option \<Rightarrow> ProfileFormValues" where
  "Profile_defaultValues user =
     \<lparr>ProfileFormValues.name = Some (case user of Some u \<Rightarrow> User.name u | None \<Rightarrow> []),
      email = Some (case user of Some u \<Rightarrow> User.email u | None \<Rightarrow> []),
      phoneNumber =
        Some (case user of
                Some u \<Rightarrow> (case User.phoneNumber u of Some p \<Rightarrow> p | None \<Rightarrow> [])
              | None \<Rightarrow> []),
      address =
        Some (case user of
                Some u \<Rightarrow> (case User.location u of Some l \<Rightarrow> Location.address l | None \<Rightarrow> [])
              | None \<Rightarrow> []),
      city =
        Some (case user of
                Some u \<Rightarrow> (case User.location u of Some l \<Rightarrow> Location.city l | None \<Rightarrow> [])
              | None \<Rightarrow> []),
      state =
        Some (case user of
                Some u \<Rightarrow> (case User.location u of Some l \<Rightarrow> Location.state l | None \<Rightarrow> [])
              | None \<Rightarrow> []),
      zipCode =
        Some (case user of
                Some u \<Rightarrow> (case User.location u of Some l \<Rightarrow> Location.zipCode l | None \<Rightarrow> [])
              | None \<Rightarrow> []),
      country =
        Some (case user of
                Some u \<Rightarrow> (case User.location u of Some l \<Rightarrow> Location.country l | None \<Rightarrow> [])
              | None \<Rightarrow> []),
      bloodType = (case user of Some u \<Rightarrow> User.bloodType u | None \<Rightarrow> None)\<rparr>"

definition Profile_initial :: "User option \<Rightarrow> ProfileState" where
  "Profile_initial user =
     \<lparr>isUpdating = False, form = Profile_defaultValues user, errors = [], calls = [],
      toasts = []\<rparr>"

text \<open>
  The second argument of \<^verbatim>\<open>api.updateUser\<close>:
  \<^verbatim>\<open>
  { name: data.name, email: data.email, phoneNumber: data.phoneNumber,
    location: { ...(user.location || { latitude: 0, longitude: 0 }),
      address: data.address, city: data.city, state: data.state,
      zipCode: data.zipCode, country: data.country },
    bloodType: data.bloodType }
  \<close>
  The spread copies the coordinates; the five address properties that follow overwrite
  whatever the spread copied under their names.
\<close>

definition Profile_payload :: "User \<Rightarrow> ProfileFormData \<Rightarrow> UpdatePayload" where
  "Profile_payload user data =
     \<lparr>UpdatePayload.name = ProfileFormData.name data,
      email = ProfileFormData.email data,
      phoneNumber = ProfileFormData.phoneNumber data,
      location =
        \<lparr>LocationUpdate.latitude =
           (case User.location user of Some l \<Rightarrow> Location.latitude l | None \<Rightarrow> 0),
         longitude =
           (case User.location user of Some l \<Rightarrow> Location.longitude l | None \<Rightarrow> 0),
         address = ProfileFormData.address data,
         city = ProfileFormData.city data,
         state = ProfileFormData.state data,
         zipCode = ProfileFormData.zipCode data,
         country = ProfileFormData.country data\<rparr>,
      bloodType = ProfileFormData.bloodType data\<rparr>"

text \<open>
  \<^verbatim>\<open>
  const onSubmit = async (data: ProfileFormData) => {
    if (!user) return;
    try {
      setIsUpdating(true);
      await api.updateUser(user.id, { ... });
      toast({ title: "Profile updated",
              description: "Your profile information has been updated successfully." });
    } catch (error) {
      toast({ title: "Update failed", description: "There was a problem updating your profile.",
              variant: "destructive" });
    } finally {
      setIsUpdating(false);
    }
  };
  \<close>
\<close>

definition Profile_onSubmit ::
    "Gateway \<Rightarrow> User option \<Rightarrow> ProfileFormData \<Rightarrow> ProfileState \<Rightarrow> ProfileState" where
  "Profile_onSubmit api user data s =
     (case user of
        None \<Rightarrow> s
      | Some u \<Rightarrow>
          (let s1 = s\<lparr>isUpdating := True\<rparr>;
               payload = Profile_payload u data;
               s2 = s1\<lparr>ProfileState.calls :=
                        ProfileState.calls s1 @ [UpdateUser (User.id' u) payload]\<rparr>;
               s3 =
                 (case updateUser api (User.id' u) payload of
                    Resolved _ \<Rightarrow>
                      s2\<lparr>ProfileState.toasts := ProfileState.toasts s2 @
                            [\<lparr>title = ''Profile updated'',
                              description =
                                ''Your profile information has been updated successfully.'',
                              variant = None\<rparr>]\<rparr>
                  | Rejected \<Rightarrow>
                      s2\<lparr>ProfileState.toasts := ProfileState.toasts s2 @
                            [\<lparr>title = ''Update failed'',
                              description = ''There was a problem updating your profile.'',
                              variant = Some ''destructive''\<rparr>]\<rparr>)
           in s3\<lparr>isUpdating := False\<rparr>))"

text \<open>
  \<^verbatim>\<open><form onSubmit={form.handleSubmit(onSubmit)}>\<close> with \<^verbatim>\<open>zodResolver(profileSchema)\<close>.
\<close>

definition Profile_handleSubmit ::
    "(string \<Rightarrow> bool) \<Rightarrow> string list \<Rightarrow> Gateway \<Rightarrow> User option \<Rightarrow> ProfileState \<Rightarrow> ProfileState" where
  "Profile_handleSubmit isEmail BloodType api user s =
     (case profileSchema isEmail BloodType (ProfileState.form s) of
        Inl issues \<Rightarrow> s\<lparr>ProfileState.errors := issues\<rparr>
      | Inr data \<Rightarrow> Profile_onSubmit api user data (s\<lparr>ProfileState.errors := []\<rparr>))"

text \<open>
  The page shows a spinner in place of everything else while the session is loading or no
  user is signed in (\<^verbatim>\<open>if (loading || !user) return ...\<close>), so the form can be submitted
  only otherwise.
\<close>

definition Profile_submit ::
    "(string \<Rightarrow> bool) \<Rightarrow> string list \<Rightarrow> Gateway \<Rightarrow> bool \<Rightarrow> User option \<Rightarrow>
     ProfileState \<Rightarrow> ProfileState" where
  "Profile_submit isEmail BloodType api auth_loading user s =
     (if auth_loading \<or> user = None then s
      else Profile_handleSubmit isEmail BloodType api user s)"

section \<open>Example data\<close>

text \<open>
  A location, three users (one of each role), and the dashboard collections of the spec's
  example: request \<open>a\<close> is critical and belongs to another user, request \<open>b\<close> belongs to
  user 2.
\<close>

definition ex_location :: Location where
  "ex_location =
     \<lparr>Location.latitude = 51.5, longitude = 2.25, address = ''1 Main Street'',
      city = ''Springfield'', state = ''IL'', zipCode = ''62701'', country = ''USA''\<rparr>"

definition ex_donor :: User where
  "ex_donor =
     \<lparr>User.id' = ''1'', name = ''John Doe'', email = ''john@example.com'', role = DONOR,
      phoneNumber = None, bloodType = Some ''O+'', location = None\<rparr>"

definition ex_requester :: User where
  "ex_requester =
     \<lparr>User.id' = ''2'', name = ''General Hospital'', email = ''desk@hospital.example'',
      role = REQUESTER, phoneNumber = Some ''555-0100'', bloodType = None,
      location = Some ex_location\<rparr>"

definition ex_admin :: User where
  "ex_admin =
     \<lparr>User.id' = ''3'', name = ''Admin'', email = ''admin@example.com'', role = ADMIN,
      phoneNumber = None, bloodType = None, location = None\<rparr>"

definition ex_request_a :: BloodRequest where
  "ex_request_a =
     \<lparr>BloodRequest.id' = ''a'', requesterId = ''5'', requesterName = ''City Clinic'',
      bloodType = ''A+'', quantity = 2, urgency = ''critical'', status = ''pending'',
      location = ex_location, notes = None\<rparr>"

definition ex_request_b :: BloodRequest where
  "ex_request_b =
     \<lparr>BloodRequest.id' = ''b'', requesterId = ''2'', requesterName = ''General Hospital'',
      bloodType = ''O+'', quantity = 1, urgency = ''low'', status = ''pending'',
      location = ex_location, notes = None\<rparr>"

definition ex_request_c :: BloodRequest where
  "ex_request_c =
     \<lparr>BloodRequest.id' = ''c'', requesterId = ''2'', requesterName = ''General Hospital'',
      bloodType = ''B-'', quantity = 3, urgency = ''high'', status = ''pending'',
      location = ex_location, notes = None\<rparr>"

definition ex_request_d :: BloodRequest where
  "ex_request_d =
     \<lparr>BloodRequest.id' = ''d'', requesterId = ''5'', requesterName = ''City Clinic'',
      bloodType = ''AB+'', quantity = 1, urgency = ''medium'', status = ''pending'',
      location = ex_location, notes = None\<rparr>"

definition ex_appointment_1 :: Appointment where
  "ex_appointment_1 = \<lparr>Appointment.id' = ''p'', donorId = ''1'', date = Some 2000\<rparr>"

definition ex_appointment_2 :: Appointment where
  "ex_appointment_2 = \<lparr>Appointment.id' = ''q'', donorId = ''7'', date = Some 1000\<rparr>"

definition ex_appointment_3 :: Appointment where
  "ex_appointment_3 = \<lparr>Appointment.id' = ''r'', donorId = ''1'', date = None\<rparr>"

definition ex_notification :: Notification where
  "ex_notification = \<lparr>Notification.id' = ''n'', read = False\<rparr>"

text \<open>A gateway whose operations all resolve, and three on which one fetch rejects.\<close>

definition ex_api :: Gateway where
  "ex_api =
     \<lparr>getBloodRequests = Resolved [ex_request_a, ex_request_b],
      getAppointments = Resolved [ex_appointment_1, ex_appointment_2],
      getNotifications = (\<lambda>_. Resolved [ex_notification]),
      createBloodRequest = (\<lambda>_. Resolved ex_request_b),
      updateUser = (\<lambda>_ _. Resolved ex_donor)\<rparr>"

definition ex_api_requests_fail :: Gateway where
  "ex_api_requests_fail = ex_api\<lparr>getBloodRequests := Rejected\<rparr>"

definition ex_api_appointments_fail :: Gateway where
  "ex_api_appointments_fail = ex_api\<lparr>getAppointments := Rejected\<rparr>"

definition ex_api_notifications_fail :: Gateway where
  "ex_api_notifications_fail = ex_api\<lparr>getNotifications := (\<lambda>_. Rejected)\<rparr>"

definition ex_api_create_fails :: Gateway where
  "ex_api_create_fails = ex_api\<lparr>createBloodRequest := (\<lambda>_. Rejected)\<rparr>"

text \<open>
  Values for the schemas' parameters: eight blood types, and a stand-in for the library's
  email pattern.
\<close>

definition ex_BloodType :: "string list" where
  "ex_BloodType = [''A+'', ''A-'', ''B+'', ''B-'', ''AB+'', ''AB-'', ''O+'', ''O-'']"

definition ex_isEmail :: "string \<Rightarrow> bool" where
  "ex_isEmail x = (CHR ''@'' \<in> set x)"

text \<open>The request form's default values with a blood type selected.\<close>

definition ex_values :: RequestFormValues where
  "ex_values = NewRequest_defaultValues\<lparr>RequestFormValues.bloodType := Some ''O+''\<rparr>"

section \<open>Properties of the dashboard\<close>

lemma filter_zip_fst:
  "length ys = length xs \<Longrightarrow> map fst (filter (\<lambda>(a, i). P a) (zip xs ys)) = filter P xs"
  by (induction xs arbitrary: ys) (auto simp: length_Suc_conv)

text \<open>When every reading of the clock is the same instant, the pass is a plain filter.\<close>

lemma upcomingAppointments_const:
  "upcomingAppointments (\<lambda>_. t) fas = filter (\<lambda>a. date_gt (date a) t) fas"
  unfolding upcomingAppointments_def by (rule filter_zip_fst) simp

lemma date_gt_iff: "date_gt d t \<longleftrightarrow> (\<exists>x. d = Some x \<and> t < x)"
  by (cases d) auto

text \<open>
  Whatever the clock does during the pass: an appointment is kept exactly when it stands
  at some index whose reading its date is strictly after.
\<close>

lemma upcomingAppointments_clock:
  "a \<in> set (upcomingAppointments clock fas) \<longleftrightarrow>
     (\<exists>i < length fas. fas ! i = a \<and> date_gt (date a) (clock i))"
proof -
  have "a \<in> set (upcomingAppointments clock fas) \<longleftrightarrow>
        (\<exists>i. (a, i) \<in> set (zip fas [0..<length fas]) \<and> date_gt (date a) (clock i))"
    unfolding upcomingAppointments_def by force
  also have "\<dots> \<longleftrightarrow> (\<exists>i < length fas. fas ! i = a \<and> date_gt (date a) (clock i))"
    by (auto simp: set_zip)
  finally show ?thesis .
qed

text \<open>
  Claim C1. For a donor the derived requests are all fetched requests and the derived
  appointments are exactly the fetched appointments whose \<open>donorId\<close> is the user's id; for
  a requester the derived requests are exactly the fetched requests whose \<open>requesterId\<close> is
  the user's id and the derived appointments are all fetched appointments; for an
  administrator both collections are unfiltered. "Exactly" is the filter of the fetched
  list (order and repetitions kept), and so the same set of elements.
\<close>

theorem C1_role_filtered_views:
  "(role user = DONOR \<longrightarrow>
      filteredRequests user rqs = rqs \<and>
      filteredAppointments user aps = filter (\<lambda>a. donorId a = User.id' user) aps \<and>
      set (filteredAppointments user aps) = {a \<in> set aps. donorId a = User.id' user}) \<and>
   (role user = REQUESTER \<longrightarrow>
      filteredRequests user rqs =
        filter (\<lambda>r. BloodRequest.requesterId r = User.id' user) rqs \<and>
      set (filteredRequests user rqs) =
        {r \<in> set rqs. BloodRequest.requesterId r = User.id' user} \<and>
      filteredAppointments user aps = aps) \<and>
   (role user = ADMIN \<longrightarrow>
      filteredRequests user rqs = rqs \<and> filteredAppointments user aps = aps)"
  by (simp add: filteredRequests_def filteredAppointments_def)

theorem C1_role_filtered_views_witness:
  "role ex_donor = DONOR \<and>
   filteredRequests ex_donor [ex_request_a, ex_request_b] = [ex_request_a, ex_request_b] \<and>
   filteredAppointments ex_donor [ex_appointment_1, ex_appointment_2] = [ex_appointment_1] \<and>
   role ex_requester = REQUESTER \<and>
   filteredRequests ex_requester [ex_request_a, ex_request_b] = [ex_request_b] \<and>
   filteredAppointments ex_requester [ex_appointment_1, ex_appointment_2] =
     [ex_appointment_1, ex_appointment_2] \<and>
   role ex_admin = ADMIN \<and>
   filteredRequests ex_admin [ex_request_a, ex_request_b] = [ex_request_a, ex_request_b] \<and>
   filteredAppointments ex_admin [ex_appointment_1, ex_appointment_2] =
     [ex_appointment_1, ex_appointment_2]"
  using
    C1_role_filtered_views [of ex_donor "[ex_request_a, ex_request_b]"
      "[ex_appointment_1, ex_appointment_2]"]
    C1_role_filtered_views [of ex_requester "[ex_request_a, ex_request_b]"
      "[ex_appointment_1, ex_appointment_2]"]
    C1_role_filtered_views [of ex_admin "[ex_request_a, ex_request_b]"
      "[ex_appointment_1, ex_appointment_2]"]
  by (simp add: ex_donor_def ex_requester_def ex_admin_def ex_request_a_def ex_request_b_def
      ex_appointment_1_def ex_appointment_2_def)

text \<open>
  Claim C5. A request is among the urgent requests exactly when it is among the
  role-filtered requests and its urgency is "high" or "critical"; a request whose urgency
  is "low" or "medium" is never among them.
\<close>

theorem C5_urgent_requests:
  "(r \<in> set (urgentRequests frs) \<longleftrightarrow>
      r \<in> set frs \<and>
      (BloodRequest.urgency r = ''high'' \<or> BloodRequest.urgency r = ''critical'')) \<and>
   (BloodRequest.urgency r = ''low'' \<or> BloodRequest.urgency r = ''medium'' \<longrightarrow>
      r \<notin> set (urgentRequests frs)) \<and>
   urgentRequests frs =
     filter (\<lambda>r. BloodRequest.urgency r = ''high'' \<or> BloodRequest.urgency r = ''critical'')
       frs"
  by (auto simp: urgentRequests_def)

theorem C5_urgent_requests_witness:
  "BloodRequest.urgency ex_request_b = ''low'' \<and>
   ex_request_b \<notin> set (urgentRequests (filteredRequests ex_donor
     [ex_request_a, ex_request_b, ex_request_c, ex_request_d])) \<and>
   BloodRequest.urgency ex_request_d = ''medium'' \<and>
   ex_request_d \<notin> set (urgentRequests (filteredRequests ex_donor
     [ex_request_a, ex_request_b, ex_request_c, ex_request_d])) \<and>
   urgentRequests (filteredRequests ex_donor
     [ex_request_a, ex_request_b, ex_request_c, ex_request_d]) = [ex_request_a, ex_request_c]"
  using
    C5_urgent_requests [of ex_request_b
      "filteredRequests ex_donor [ex_request_a, ex_request_b, ex_request_c, ex_request_d]"]
    C5_urgent_requests [of ex_request_d
      "filteredRequests ex_donor [ex_request_a, ex_request_b, ex_request_c, ex_request_d]"]
  by (simp add: filteredRequests_def ex_donor_def ex_request_a_def ex_request_b_def
      ex_request_c_def ex_request_d_def)

text \<open>
  Claim C6. When the clock reads the instant \<open>t\<close> throughout the pass, an appointment is
  among the upcoming appointments exactly when it is among the role-filtered appointments
  and its date is strictly after \<open>t\<close>; an appointment scheduled exactly at \<open>t\<close> is
  excluded. (The first conjunct is the same fact for a clock that moves during the pass.)
\<close>

theorem C6_upcoming_appointments:
  "(a \<in> set (upcomingAppointments clock fas) \<longleftrightarrow>
      (\<exists>i < length fas. fas ! i = a \<and> (\<exists>d. date a = Some d \<and> clock i < d))) \<and>
   (a \<in> set (upcomingAppointments (\<lambda>_. t) fas) \<longleftrightarrow>
      a \<in> set fas \<and> (\<exists>d. date a = Some d \<and> t < d)) \<and>
   (date a = Some t \<longrightarrow> a \<notin> set (upcomingAppointments (\<lambda>_. t) fas)) \<and>
   upcomingAppointments (\<lambda>_. t) fas = filter (\<lambda>a. date_gt (date a) t) fas"
proof -
  have "a \<in> set (upcomingAppointments clock fas) \<longleftrightarrow>
        (\<exists>i < length fas. fas ! i = a \<and> (\<exists>d. date a = Some d \<and> clock i < d))"
    by (simp add: upcomingAppointments_clock date_gt_iff)
  moreover have "a \<in> set (upcomingAppointments (\<lambda>_. t) fas) \<longleftrightarrow>
        a \<in> set fas \<and> (\<exists>d. date a = Some d \<and> t < d)"
    by (simp add: upcomingAppointments_const date_gt_iff)
  moreover have "date a = Some t \<longrightarrow> a \<notin> set (upcomingAppointments (\<lambda>_. t) fas)"
    by (simp add: upcomingAppointments_const)
  ultimately show ?thesis
    by (simp only: upcomingAppointments_const simp_thms)
qed

theorem C6_upcoming_appointments_witness:
  "date ex_appointment_2 = Some 1000 \<and>
   ex_appointment_2 \<notin> set (upcomingAppointments (\<lambda>_. 1000)
     [ex_appointment_1, ex_appointment_2, ex_appointment_3]) \<and>
   upcomingAppointments (\<lambda>_. 1000) [ex_appointment_1, ex_appointment_2, ex_appointment_3] =
     [ex_appointment_1] \<and>
   upcomingAppointments (\<lambda>_. 999) [ex_appointment_1, ex_appointment_2, ex_appointment_3] =
     [ex_appointment_1, ex_appointment_2]"
  using
    C6_upcoming_appointments [of ex_appointment_2 "\<lambda>_. 1000"
      "[ex_appointment_1, ex_appointment_2, ex_appointment_3]" 1000]
    C6_upcoming_appointments [of ex_appointment_2 "\<lambda>_. 999"
      "[ex_appointment_1, ex_appointment_2, ex_appointment_3]" 999]
  by (simp add: ex_appointment_1_def ex_appointment_2_def ex_appointment_3_def)

text \<open>
  Claim C10. For an administrator the third stat card shows the constant string "4",
  whatever has been fetched: before the fetch and after it, and the fetch makes no gateway
  call other than the three fetches of requests, appointments and notifications.
\<close>

theorem C10_admin_total_users:
  "role user = ADMIN \<Longrightarrow>
     statCard3 user s = Text ''4'' \<and>
     statCard3 user (fetchData api (Some user) s) = Text ''4'' \<and>
     set (HomeState.calls (fetchData api (Some user) s)) \<subseteq>
       set (HomeState.calls s) \<union>
         {GetBloodRequests, GetAppointments, GetNotifications (User.id' user)}"
  by (auto simp: statCard3_def fetchData_def Let_def split: promise.splits)

theorem C10_admin_total_users_witness:
  "role ex_admin = ADMIN \<and>
   statCard3 ex_admin Home_initial = Text ''4'' \<and>
   statCard3 ex_admin (fetchData ex_api (Some ex_admin) Home_initial) = Text ''4'' \<and>
   HomeState.calls (fetchData ex_api (Some ex_admin) Home_initial) =
     [GetBloodRequests, GetAppointments, GetNotifications ''3''] \<and>
   statCard3 ex_donor (fetchData ex_api (Some ex_donor) Home_initial) = Number 1"
  using C10_admin_total_users [of ex_admin Home_initial ex_api]
    C10_admin_total_users [of ex_admin "fetchData ex_api (Some ex_admin) Home_initial" ex_api]
  by (simp add: ex_admin_def ex_donor_def ex_api_def Home_initial_def fetchData_def
      statCard3_def unreadNotifications_def ex_notification_def)

text \<open>
  Claim C8. When a fetch of the dashboard rejects (the requests or the appointments of
  \<^verbatim>\<open>Promise.all\<close>, or the notifications that are fetched for a non-empty user id), the
  failure is written to the console, requests, appointments and notifications keep the
  value they had, and the loading flag is cleared. On the state the page is mounted with,
  the three collections, and the views derived from them, are therefore empty.
\<close>

theorem C8_fetch_failure:
  assumes "getBloodRequests api = Rejected \<or> getAppointments api = Rejected \<or>
           (User.id' u \<noteq> [] \<and> getNotifications api (User.id' u) = Rejected)"
  shows "requests (fetchData api (Some u) s) = requests s \<and>
         appointments (fetchData api (Some u) s) = appointments s \<and>
         notifications (fetchData api (Some u) s) = notifications s \<and>
         loading (fetchData api (Some u) s) = False \<and>
         console (fetchData api (Some u) s) = console s @ [''Error fetching dashboard data:''] \<and>
         requests (fetchData api (Some u) Home_initial) = [] \<and>
         appointments (fetchData api (Some u) Home_initial) = [] \<and>
         notifications (fetchData api (Some u) Home_initial) = [] \<and>
         filteredRequests u (requests (fetchData api (Some u) Home_initial)) = [] \<and>
         filteredAppointments u (appointments (fetchData api (Some u) Home_initial)) = []"
proof -
  have kept: "requests (fetchData api (Some u) t) = requests t \<and>
         appointments (fetchData api (Some u) t) = appointments t \<and>
         notifications (fetchData api (Some u) t) = notifications t \<and>
         loading (fetchData api (Some u) t) = False \<and>
         console (fetchData api (Some u) t) = console t @ [''Error fetching dashboard data:'']"
    for t
    using assms by (auto simp: fetchData_def Let_def split: promise.splits)
  have "requests Home_initial = []" "appointments Home_initial = []"
    "notifications Home_initial = []"
    by (simp_all add: Home_initial_def)
  with kept [of s] kept [of Home_initial] show ?thesis
    by (simp add: filteredRequests_def filteredAppointments_def)
qed

theorem C8_fetch_failure_witness:
  "getBloodRequests ex_api_requests_fail = Rejected \<and>
   fetchData ex_api_requests_fail (Some ex_donor) Home_initial =
     \<lparr>requests = [], appointments = [], notifications = [], loading = False,
      calls = [GetBloodRequests, GetAppointments],
      console = [''Error fetching dashboard data:'']\<rparr> \<and>
   getAppointments ex_api_appointments_fail = Rejected \<and>
   fetchData ex_api_appointments_fail (Some ex_donor) Home_initial =
     \<lparr>requests = [], appointments = [], notifications = [], loading = False,
      calls = [GetBloodRequests, GetAppointments],
      console = [''Error fetching dashboard data:'']\<rparr> \<and>
   User.id' ex_donor \<noteq> [] \<and>
   getNotifications ex_api_notifications_fail (User.id' ex_donor) = Rejected \<and>
   fetchData ex_api_notifications_fail (Some ex_donor) Home_initial =
     \<lparr>requests = [], appointments = [], notifications = [], loading = False,
      calls = [GetBloodRequests, GetAppointments, GetNotifications ''1''],
      console = [''Error fetching dashboard data:'']\<rparr> \<and>
   fetchData ex_api (Some ex_donor) Home_initial =
     \<lparr>requests = [ex_request_a, ex_request_b],
      appointments = [ex_appointment_1, ex_appointment_2],
      notifications = [ex_notification], loading = False,
      calls = [GetBloodRequests, GetAppointments, GetNotifications ''1''],
      console = []\<rparr>"
  using C8_fetch_failure [of ex_api_requests_fail ex_donor Home_initial]
    C8_fetch_failure [of ex_api_appointments_fail ex_donor Home_initial]
    C8_fetch_failure [of ex_api_notifications_fail ex_donor Home_initial]
  by (simp add: ex_api_requests_fail_def ex_api_appointments_fail_def
      ex_api_notifications_fail_def ex_api_def ex_donor_def Home_initial_def fetchData_def)

section \<open>Properties of the request form\<close>

text \<open>The inputs \<^verbatim>\<open>requestSchema\<close> accepts, and the data it then returns.\<close>

lemma requestSchema_Inr_iff:
  "requestSchema BT v = Inr d \<longleftrightarrow>
     (\<exists>b q u. RequestFormValues.bloodType v = Some b \<and> b \<in> set BT \<and>
        RequestFormValues.quantity v = Some q \<and> 1 \<le> q \<and> q \<le> 10 \<and>
        RequestFormValues.urgency v = Some u \<and> u \<in> set UrgencyLevel \<and>
        d = \<lparr>RequestFormData.bloodType = b, quantity = q, urgency = u,
             notes = RequestFormValues.notes v, expireAt = RequestFormValues.expireAt v\<rparr>)"
  by (auto simp: requestSchema_def nativeEnum_def number_min_max_def string_optional_def Let_def
      split: option.splits if_splits sum.splits list.splits)

text \<open>The issues of a rejected input, field by field.\<close>

lemma requestSchema_Inl:
  assumes "requestSchema BT v = Inl issues"
  shows "issues =
     at_field ''bloodType'' (nativeEnum BT (Custom ''Please select a blood type'')
        (RequestFormValues.bloodType v)) @
     at_field ''quantity'' (number_min_max 1 ''Quantity must be at least 1 unit''
        10 ''Quantity cannot exceed 10 units'' (RequestFormValues.quantity v)) @
     at_field ''urgency'' (nativeEnum UrgencyLevel (Custom ''Please select an urgency level'')
        (RequestFormValues.urgency v))"
  using assms
  by (auto simp: requestSchema_def string_optional_def at_field_def Let_def split: sum.splits)

lemma requestSchema_cases:
  "(\<exists>d. requestSchema BT v = Inr d) \<or> (\<exists>issues. requestSchema BT v = Inl issues)"
  by (cases "requestSchema BT v") auto

lemma handleSubmit_blocked:
  "requestSchema BT (NewRequestState.form s) = Inl issues \<Longrightarrow>
   NewRequest_handleSubmit BT api user s = s\<lparr>NewRequestState.errors := issues\<rparr>"
  by (simp add: NewRequest_handleSubmit_def)

lemma handleSubmit_accepted:
  "requestSchema BT (NewRequestState.form s) = Inr d \<Longrightarrow>
   NewRequest_handleSubmit BT api user s =
     NewRequest_onSubmit api user d (s\<lparr>NewRequestState.errors := []\<rparr>)"
  by (simp add: NewRequest_handleSubmit_def)

text \<open>The definitions that evaluate a submission of the request form on the examples.\<close>

lemmas ex_request_form_defs =
  ex_values_def NewRequest_defaultValues_def UrgencyLevel_MEDIUM_def NewRequest_initial_def
  ex_BloodType_def
  requestSchema_def nativeEnum_def number_min_max_def string_optional_def at_field_def
  UrgencyLevel_def NewRequest_handleSubmit_def NewRequest_onSubmit_def
  ex_api_def ex_api_create_fails_def ex_requester_def ex_donor_def

text \<open>
  Claim C2, amended. An input the request schema accepts has a quantity that is a number
  within the inclusive bounds 1 to 10 (it need not be an integer), a blood type of the
  enumeration and an urgency of the enumeration. For every input whose quantity is outside
  the bounds, or whose blood type or urgency is missing, parsing fails with an issue at the
  offending field, and submitting the form only stores the issues as field errors: no
  call to the gateway is made, whoever is signed in.
\<close>

theorem C2_request_validation:
  "(requestSchema BT v = Inr d \<longrightarrow>
      RequestFormValues.quantity v = Some (RequestFormData.quantity d) \<and>
      1 \<le> RequestFormData.quantity d \<and> RequestFormData.quantity d \<le> 10 \<and>
      RequestFormValues.bloodType v = Some (RequestFormData.bloodType d) \<and>
      RequestFormData.bloodType d \<in> set BT \<and>
      RequestFormValues.urgency v = Some (RequestFormData.urgency d) \<and>
      RequestFormData.urgency d \<in> set UrgencyLevel) \<and>
   ((\<exists>q. RequestFormValues.quantity v = Some q \<and> (q < 1 \<or> 10 < q)) \<or>
    RequestFormValues.bloodType v = None \<or> RequestFormValues.urgency v = None \<longrightarrow>
      (\<exists>issues. requestSchema BT v = Inl issues \<and>
         (\<forall>q. RequestFormValues.quantity v = Some q \<and> q < 1 \<longrightarrow>
            (''quantity'', Custom ''Quantity must be at least 1 unit'') \<in> set issues) \<and>
         (\<forall>q. RequestFormValues.quantity v = Some q \<and> 10 < q \<longrightarrow>
            (''quantity'', Custom ''Quantity cannot exceed 10 units'') \<in> set issues) \<and>
         (RequestFormValues.bloodType v = None \<longrightarrow>
            (''bloodType'', Custom ''Please select a blood type'') \<in> set issues) \<and>
         (RequestFormValues.urgency v = None \<longrightarrow>
            (''urgency'', Custom ''Please select an urgency level'') \<in> set issues) \<and>
         (NewRequestState.form s = v \<longrightarrow>
            NewRequest_handleSubmit BT api user s = s\<lparr>NewRequestState.errors := issues\<rparr> \<and>
            NewRequestState.calls (NewRequest_handleSubmit BT api user s) =
              NewRequestState.calls s)))"
proof (intro conjI impI)
  assume bad: "(\<exists>q. RequestFormValues.quantity v = Some q \<and> (q < 1 \<or> 10 < q)) \<or>
    RequestFormValues.bloodType v = None \<or> RequestFormValues.urgency v = None"
  then have "\<nexists>d. requestSchema BT v = Inr d"
    by (auto simp: requestSchema_Inr_iff)
  with requestSchema_cases [of BT v] obtain issues where i: "requestSchema BT v = Inl issues"
    by blast
  note shape = requestSchema_Inl [OF i]
  have "(\<forall>q. RequestFormValues.quantity v = Some q \<and> q < 1 \<longrightarrow>
            (''quantity'', Custom ''Quantity must be at least 1 unit'') \<in> set issues)"
    by (auto simp: shape at_field_def number_min_max_def)
  moreover have "(\<forall>q. RequestFormValues.quantity v = Some q \<and> 10 < q \<longrightarrow>
            (''quantity'', Custom ''Quantity cannot exceed 10 units'') \<in> set issues)"
    by (auto simp: shape at_field_def number_min_max_def)
  moreover have "RequestFormValues.bloodType v = None \<longrightarrow>
            (''bloodType'', Custom ''Please select a blood type'') \<in> set issues"
    by (auto simp: shape at_field_def nativeEnum_def)
  moreover have "RequestFormValues.urgency v = None \<longrightarrow>
            (''urgency'', Custom ''Please select an urgency level'') \<in> set issues"
    by (auto simp: shape at_field_def nativeEnum_def)
  moreover have "NewRequestState.form s = v \<longrightarrow>
            NewRequest_handleSubmit BT api user s = s\<lparr>NewRequestState.errors := issues\<rparr> \<and>
            NewRequestState.calls (NewRequest_handleSubmit BT api user s) =
              NewRequestState.calls s"
    using i by (auto simp: handleSubmit_blocked)
  ultimately show "\<exists>issues. requestSchema BT v = Inl issues \<and>
         (\<forall>q. RequestFormValues.quantity v = Some q \<and> q < 1 \<longrightarrow>
            (''quantity'', Custom ''Quantity must be at least 1 unit'') \<in> set issues) \<and>
         (\<forall>q. RequestFormValues.quantity v = Some q \<and> 10 < q \<longrightarrow>
            (''quantity'', Custom ''Quantity cannot exceed 10 units'') \<in> set issues) \<and>
         (RequestFormValues.bloodType v = None \<longrightarrow>
            (''bloodType'', Custom ''Please select a blood type'') \<in> set issues) \<and>
         (RequestFormValues.urgency v = None \<longrightarrow>
            (''urgency'', Custom ''Please select an urgency level'') \<in> set issues) \<and>
         (NewRequestState.form s = v \<longrightarrow>
            NewRequest_handleSubmit BT api user s = s\<lparr>NewRequestState.errors := issues\<rparr> \<and>
            NewRequestState.calls (NewRequest_handleSubmit BT api user s) =
              NewRequestState.calls s)"
    using i by (intro exI [of _ issues]) simp
qed (auto simp: requestSchema_Inr_iff)

theorem C2_request_validation_witness:
  "requestSchema ex_BloodType (ex_values\<lparr>RequestFormValues.quantity := Some 11\<rparr>) =
     Inl [(''quantity'', Custom ''Quantity cannot exceed 10 units'')] \<and>
   NewRequest_handleSubmit ex_BloodType ex_api (Some ex_requester)
       (NewRequest_initial\<lparr>NewRequestState.form :=
          ex_values\<lparr>RequestFormValues.quantity := Some 11\<rparr>\<rparr>) =
     NewRequest_initial\<lparr>NewRequestState.form :=
          ex_values\<lparr>RequestFormValues.quantity := Some 11\<rparr>,
        NewRequestState.errors := [(''quantity'', Custom ''Quantity cannot exceed 10 units'')]\<rparr> \<and>
   requestSchema ex_BloodType (ex_values\<lparr>RequestFormValues.quantity := Some 0\<rparr>) =
     Inl [(''quantity'', Custom ''Quantity must be at least 1 unit'')] \<and>
   requestSchema ex_BloodType NewRequest_defaultValues =
     Inl [(''bloodType'', Custom ''Please select a blood type'')] \<and>
   requestSchema ex_BloodType (ex_values\<lparr>RequestFormValues.urgency := None\<rparr>) =
     Inl [(''urgency'', Custom ''Please select an urgency level'')] \<and>
   requestSchema ex_BloodType ex_values =
     Inr \<lparr>RequestFormData.bloodType = ''O+'', quantity = 1, urgency = ''medium'',
          notes = Some [], expireAt = None\<rparr>"
  using
    C2_request_validation [where BT = ex_BloodType
      and v = "ex_values\<lparr>RequestFormValues.quantity := Some 11\<rparr>"
      and s = "NewRequest_initial\<lparr>NewRequestState.form :=
          ex_values\<lparr>RequestFormValues.quantity := Some 11\<rparr>\<rparr>"
      and api = ex_api and user = "Some ex_requester", THEN conjunct2]
    C2_request_validation [where BT = ex_BloodType
      and v = "ex_values\<lparr>RequestFormValues.quantity := Some 0\<rparr>", THEN conjunct2]
    C2_request_validation [where BT = ex_BloodType and v = NewRequest_defaultValues,
      THEN conjunct2]
    C2_request_validation [where BT = ex_BloodType
      and v = "ex_values\<lparr>RequestFormValues.urgency := None\<rparr>", THEN conjunct2]
    C2_request_validation [where BT = ex_BloodType and v = ex_values
      and d = "\<lparr>RequestFormData.bloodType = ''O+'', quantity = 1, urgency = ''medium'',
          notes = Some [], expireAt = None\<rparr>", THEN conjunct1]
  by (simp add: ex_request_form_defs)

text \<open>
  Claim C2 as stated fails: the schema accepts the quantity 1.5, which is not an integer,
  and the submission reaches the gateway.
\<close>

theorem C2_fractional_quantity_accepted:
  "requestSchema ex_BloodType (ex_values\<lparr>RequestFormValues.quantity := Some (3 / 2)\<rparr>) =
     Inr \<lparr>RequestFormData.bloodType = ''O+'', quantity = 3 / 2, urgency = ''medium'',
          notes = Some [], expireAt = None\<rparr> \<and>
   (3 / 2 :: real) \<notin> \<int> \<and>
   NewRequestState.calls
     (NewRequest_handleSubmit ex_BloodType ex_api (Some ex_requester)
        (NewRequest_initial\<lparr>NewRequestState.form :=
           ex_values\<lparr>RequestFormValues.quantity := Some (3 / 2)\<rparr>\<rparr>)) =
     [CreateBloodRequest
        \<lparr>CreatePayload.requesterId = ''2'', requesterName = ''General Hospital'',
         bloodType = ''O+'', quantity = 3 / 2, urgency = ''medium'', location = ex_location,
         status = ''pending'', notes = Some [], expireAt = None\<rparr>]"
  by (simp add: ex_request_form_defs NewRequest_payload_def RequestStatus_PENDING_def)

text \<open>
  Claim C3, amended. For every input the request schema accepts, submitting the form while
  a user is signed in makes exactly one call to the gateway, a create call whose payload
  has the status "pending" and whose location is the user's stored location when there is
  one and the placeholder (latitude 0, longitude 0, address, city, state and country
  "Unknown", zip code "00000") otherwise. While no user is signed in, \<^verbatim>\<open>onSubmit\<close>
  returns at once and no call is made.
\<close>

theorem C3_create_call:
  assumes "requestSchema BT (NewRequestState.form s) = Inr d"
  shows "NewRequestState.calls (NewRequest_handleSubmit BT api (Some u) s) =
           NewRequestState.calls s @ [CreateBloodRequest (NewRequest_payload u d)] \<and>
         CreatePayload.status (NewRequest_payload u d) = ''pending'' \<and>
         (\<forall>l. User.location u = Some l \<longrightarrow> CreatePayload.location (NewRequest_payload u d) = l) \<and>
         (User.location u = None \<longrightarrow>
            CreatePayload.location (NewRequest_payload u d) =
              \<lparr>Location.latitude = 0, longitude = 0, address = ''Unknown'', city = ''Unknown'',
               state = ''Unknown'', zipCode = ''00000'', country = ''Unknown''\<rparr>) \<and>
         NewRequest_handleSubmit BT api None s = s\<lparr>NewRequestState.errors := []\<rparr> \<and>
         NewRequestState.calls (NewRequest_handleSubmit BT api None s) = NewRequestState.calls s"
  by (simp add: handleSubmit_accepted [OF assms] NewRequest_onSubmit_def Let_def
      NewRequest_payload_def RequestStatus_PENDING_def split: promise.splits)

theorem C3_create_call_witness:
  "requestSchema ex_BloodType ex_values =
     Inr \<lparr>RequestFormData.bloodType = ''O+'', quantity = 1, urgency = ''medium'',
          notes = Some [], expireAt = None\<rparr> \<and>
   NewRequestState.calls (NewRequest_handleSubmit ex_BloodType ex_api (Some ex_requester)
       (NewRequest_initial\<lparr>NewRequestState.form := ex_values\<rparr>)) =
     [CreateBloodRequest
        \<lparr>CreatePayload.requesterId = ''2'', requesterName = ''General Hospital'',
         bloodType = ''O+'', quantity = 1, urgency = ''medium'', location = ex_location,
         status = ''pending'', notes = Some [], expireAt = None\<rparr>] \<and>
   NewRequestState.calls (NewRequest_handleSubmit ex_BloodType ex_api (Some ex_donor)
       (NewRequest_initial\<lparr>NewRequestState.form := ex_values\<rparr>)) =
     [CreateBloodRequest
        \<lparr>CreatePayload.requesterId = ''1'', requesterName = ''John Doe'',
         bloodType = ''O+'', quantity = 1, urgency = ''medium'',
         location =
           \<lparr>Location.latitude = 0, longitude = 0, address = ''Unknown'', city = ''Unknown'',
            state = ''Unknown'', zipCode = ''00000'', country = ''Unknown''\<rparr>,
         status = ''pending'', notes = Some [], expireAt = None\<rparr>]"
  using
    C3_create_call [where BT = ex_BloodType
      and s = "NewRequest_initial\<lparr>NewRequestState.form := ex_values\<rparr>"
      and d = "\<lparr>RequestFormData.bloodType = ''O+'', quantity = 1, urgency = ''medium'',
          notes = Some [], expireAt = None\<rparr>"
      and api = ex_api and u = ex_requester]
    C3_create_call [where BT = ex_BloodType
      and s = "NewRequest_initial\<lparr>NewRequestState.form := ex_values\<rparr>"
      and d = "\<lparr>RequestFormData.bloodType = ''O+'', quantity = 1, urgency = ''medium'',
          notes = Some [], expireAt = None\<rparr>"
      and api = ex_api and u = ex_donor]
  by (simp add: ex_request_form_defs NewRequest_payload_def RequestStatus_PENDING_def)

text \<open>
  Claim C3 as stated fails: with no user signed in, submitting an accepted input makes no
  create call.
\<close>

theorem C3_no_user_no_create_call:
  "requestSchema ex_BloodType ex_values =
     Inr \<lparr>RequestFormData.bloodType = ''O+'', quantity = 1, urgency = ''medium'',
          notes = Some [], expireAt = None\<rparr> \<and>
   NewRequestState.calls (NewRequest_handleSubmit ex_BloodType ex_api None
       (NewRequest_initial\<lparr>NewRequestState.form := ex_values\<rparr>)) = []"
  by (simp add: ex_request_form_defs)

text \<open>
  Claim C7. The request schema puts no bound on the expiry date: replacing \<open>expireAt\<close>
  by any string, or by \<^verbatim>\<open>undefined\<close>, changes neither whether the input is accepted nor
  its issues, and an accepted input carries the new value unchanged.
\<close>

theorem C7_expiry_not_validated:
  "(requestSchema BT v = Inr d \<longrightarrow>
      requestSchema BT (v\<lparr>RequestFormValues.expireAt := e\<rparr>) =
        Inr (d\<lparr>RequestFormData.expireAt := e\<rparr>)) \<and>
   (requestSchema BT v = Inl issues \<longrightarrow>
      requestSchema BT (v\<lparr>RequestFormValues.expireAt := e\<rparr>) = Inl issues)"
  by (auto simp: requestSchema_def string_optional_def at_field_def Let_def split: sum.splits)

theorem C7_expiry_not_validated_witness:
  "requestSchema ex_BloodType ex_values =
     Inr \<lparr>RequestFormData.bloodType = ''O+'', quantity = 1, urgency = ''medium'',
          notes = Some [], expireAt = None\<rparr> \<and>
   requestSchema ex_BloodType (ex_values\<lparr>RequestFormValues.expireAt := Some ''1999-12-31''\<rparr>) =
     Inr \<lparr>RequestFormData.bloodType = ''O+'', quantity = 1, urgency = ''medium'',
          notes = Some [], expireAt = Some ''1999-12-31''\<rparr> \<and>
   requestSchema ex_BloodType (ex_values\<lparr>RequestFormValues.expireAt := Some ''not a date''\<rparr>) =
     Inr \<lparr>RequestFormData.bloodType = ''O+'', quantity = 1, urgency = ''medium'',
          notes = Some [], expireAt = Some ''not a date''\<rparr> \<and>
   requestSchema ex_BloodType NewRequest_defaultValues =
     Inl [(''bloodType'', Custom ''Please select a blood type'')] \<and>
   requestSchema ex_BloodType
       (NewRequest_defaultValues\<lparr>RequestFormValues.expireAt := Some ''1999-12-31''\<rparr>) =
     Inl [(''bloodType'', Custom ''Please select a blood type'')] \<and>
   NewRequestState.calls (NewRequest_handleSubmit ex_BloodType ex_api (Some ex_requester)
       (NewRequest_initial\<lparr>NewRequestState.form :=
          ex_values\<lparr>RequestFormValues.expireAt := Some ''1999-12-31''\<rparr>\<rparr>)) =
     [CreateBloodRequest
        \<lparr>CreatePayload.requesterId = ''2'', requesterName = ''General Hospital'',
         bloodType = ''O+'', quantity = 1, urgency = ''medium'', location = ex_location,
         status = ''pending'', notes = Some [],
         expireAt = Some (NewDate ''1999-12-31'')\<rparr>]"
  using
    C7_expiry_not_validated [where BT = ex_BloodType and v = ex_values
      and d = "\<lparr>RequestFormData.bloodType = ''O+'', quantity = 1, urgency = ''medium'',
          notes = Some [], expireAt = None\<rparr>" and e = "Some ''1999-12-31''"]
    C7_expiry_not_validated [where BT = ex_BloodType and v = ex_values
      and d = "\<lparr>RequestFormData.bloodType = ''O+'', quantity = 1, urgency = ''medium'',
          notes = Some [], expireAt = None\<rparr>" and e = "Some ''not a date''"]
    C7_expiry_not_validated [where BT = ex_BloodType and v = NewRequest_defaultValues
      and issues = "[(''bloodType'', Custom ''Please select a blood type'')]"
      and e = "Some ''1999-12-31''"]
  by (simp add: ex_request_form_defs NewRequest_payload_def RequestStatus_PENDING_def)

text \<open>
  Claim C9. When the create call of a submission rejects, the submission adds exactly the
  destructive "Error" toast and the create call, and ends with the submitting flag false:
  nothing is navigated to and the form's field values are the ones submitted.
\<close>

theorem C9_create_rejected:
  assumes "requestSchema BT (NewRequestState.form s) = Inr d"
    and "createBloodRequest api (NewRequest_payload u d) = Rejected"
  shows "NewRequest_handleSubmit BT api (Some u) s =
           s\<lparr>NewRequestState.errors := [],
             NewRequestState.calls :=
               NewRequestState.calls s @ [CreateBloodRequest (NewRequest_payload u d)],
             NewRequestState.toasts := NewRequestState.toasts s @
               [\<lparr>title = ''Error'', description = ''There was a problem creating your request.'',
                 variant = Some ''destructive''\<rparr>],
             isSubmitting := False\<rparr> \<and>
         NewRequestState.toasts (NewRequest_handleSubmit BT api (Some u) s) =
           NewRequestState.toasts s @
             [\<lparr>title = ''Error'', description = ''There was a problem creating your request.'',
               variant = Some ''destructive''\<rparr>] \<and>
         navigations (NewRequest_handleSubmit BT api (Some u) s) = navigations s \<and>
         NewRequestState.form (NewRequest_handleSubmit BT api (Some u) s) =
           NewRequestState.form s \<and>
         isSubmitting (NewRequest_handleSubmit BT api (Some u) s) = False"
  by (simp add: handleSubmit_accepted [OF assms(1)] NewRequest_onSubmit_def Let_def assms(2))

theorem C9_create_rejected_witness:
  "requestSchema ex_BloodType ex_values =
     Inr \<lparr>RequestFormData.bloodType = ''O+'', quantity = 1, urgency = ''medium'',
          notes = Some [], expireAt = None\<rparr> \<and>
   NewRequest_handleSubmit ex_BloodType ex_api_create_fails (Some ex_requester)
       (NewRequest_initial\<lparr>NewRequestState.form := ex_values\<rparr>) =
     \<lparr>isSubmitting = False, form = ex_values, errors = [],
      calls = [CreateBloodRequest
        \<lparr>CreatePayload.requesterId = ''2'', requesterName = ''General Hospital'',
         bloodType = ''O+'', quantity = 1, urgency = ''medium'', location = ex_location,
         status = ''pending'', notes = Some [], expireAt = None\<rparr>],
      toasts = [\<lparr>title = ''Error'', description = ''There was a problem creating your request.'',
                 variant = Some ''destructive''\<rparr>],
      navigations = []\<rparr> \<and>
   NewRequest_handleSubmit ex_BloodType ex_api (Some ex_requester)
       (NewRequest_initial\<lparr>NewRequestState.form := ex_values\<rparr>) =
     \<lparr>isSubmitting = False, form = ex_values, errors = [],
      calls = [CreateBloodRequest
        \<lparr>CreatePayload.requesterId = ''2'', requesterName = ''General Hospital'',
         bloodType = ''O+'', quantity = 1, urgency = ''medium'', location = ex_location,
         status = ''pending'', notes = Some [], expireAt = None\<rparr>],
      toasts = [\<lparr>title = ''Request created'',
                 description = ''Your blood request has been successfully created.'',
                 variant = None\<rparr>],
      navigations = [''/requests'']\<rparr>"
  using
    C9_create_rejected [where BT = ex_BloodType
      and s = "NewRequest_initial\<lparr>NewRequestState.form := ex_values\<rparr>"
      and d = "\<lparr>RequestFormData.bloodType = ''O+'', quantity = 1, urgency = ''medium'',
          notes = Some [], expireAt = None\<rparr>"
      and api = ex_api_create_fails and u = ex_requester]
  by (simp add: ex_request_form_defs NewRequest_payload_def RequestStatus_PENDING_def)

section \<open>Properties of the profile form\<close>

text \<open>The inputs \<^verbatim>\<open>profileSchema\<close> accepts, and the data it then returns.\<close>

lemma profileSchema_Inr_iff:
  "profileSchema isEmail BT v = Inr d \<longleftrightarrow>
     (\<exists>n e. ProfileFormValues.name v = Some n \<and> 2 \<le> length n \<and>
        ProfileFormValues.email v = Some e \<and> isEmail e \<and>
        (\<forall>b. ProfileFormValues.bloodType v = Some b \<longrightarrow> b \<in> set BT) \<and>
        d = \<lparr>ProfileFormData.name = n, email = e,
             phoneNumber = ProfileFormValues.phoneNumber v,
             address = ProfileFormValues.address v, city = ProfileFormValues.city v,
             state = ProfileFormValues.state v, zipCode = ProfileFormValues.zipCode v,
             country = ProfileFormValues.country v,
             bloodType = ProfileFormValues.bloodType v\<rparr>)"
  by (auto simp: profileSchema_def string_min_def string_email_def string_optional_def
      nativeEnum_optional_def Let_def split: option.splits if_splits sum.splits)

lemma profileSchema_Inl:
  assumes "profileSchema isEmail BT v = Inl issues"
  shows "issues =
     at_field ''name'' (string_min 2 ''Name must be at least 2 characters''
        (ProfileFormValues.name v)) @
     at_field ''email'' (string_email isEmail ''Please enter a valid email''
        (ProfileFormValues.email v)) @
     at_field ''bloodType'' (nativeEnum_optional BT (ProfileFormValues.bloodType v))"
  using assms
  by (auto simp: profileSchema_def string_optional_def at_field_def Let_def split: sum.splits)

lemma profileSchema_cases:
  "(\<exists>d. profileSchema isEmail BT v = Inr d) \<or> (\<exists>issues. profileSchema isEmail BT v = Inl issues)"
  by (cases "profileSchema isEmail BT v") auto


lemma Profile_submit_blocked:
  "profileSchema isEmail BT (ProfileState.form s) = Inl issues \<Longrightarrow>
   Profile_submit isEmail BT api False (Some u) s = s\<lparr>ProfileState.errors := issues\<rparr> \<and>
   ProfileState.calls (Profile_submit isEmail BT api ld user s) = ProfileState.calls s"
  by (simp add: Profile_submit_def Profile_handleSubmit_def)

lemma Profile_submit_accepted:
  "profileSchema isEmail BT (ProfileState.form s) = Inr d \<Longrightarrow>
   Profile_submit isEmail BT api False (Some u) s =
     Profile_onSubmit api (Some u) d (s\<lparr>ProfileState.errors := []\<rparr>)"
  by (simp add: Profile_submit_def Profile_handleSubmit_def)

text \<open>
  Claim C4, amended. For every input whose name is shorter than 2 characters or whose
  email does not match the email pattern, parsing fails with an issue at that field, and
  submitting stores the issues as field errors without any call to the gateway. Every
  input the schema accepts, submitted on the form (which is shown once the session has
  loaded with a user), makes exactly one call, an update call for the user's id. Its
  payload holds name, email, phone number and blood type of the form, and a location with
  the form's address, city, state, zip code and country together with a latitude and a
  longitude that are no field of the schema: those of the user's stored location, or 0 and
  0 when there is none.
\<close>

theorem C4_profile_submission:
  "((\<exists>n. ProfileFormValues.name v = Some n \<and> length n < 2) \<or>
    (\<exists>e. ProfileFormValues.email v = Some e \<and> \<not> isEmail e) \<longrightarrow>
      (\<exists>issues. profileSchema isEmail BT v = Inl issues \<and>
         (\<forall>n. ProfileFormValues.name v = Some n \<and> length n < 2 \<longrightarrow>
            (''name'', Custom ''Name must be at least 2 characters'') \<in> set issues) \<and>
         (\<forall>e. ProfileFormValues.email v = Some e \<and> \<not> isEmail e \<longrightarrow>
            (''email'', Custom ''Please enter a valid email'') \<in> set issues) \<and>
         (ProfileState.form s = v \<longrightarrow>
            Profile_submit isEmail BT api False (Some u) s =
              s\<lparr>ProfileState.errors := issues\<rparr> \<and>
            ProfileState.calls (Profile_submit isEmail BT api ld user s) =
              ProfileState.calls s))) \<and>
   (profileSchema isEmail BT (ProfileState.form s) = Inr d \<longrightarrow>
      ProfileState.calls (Profile_submit isEmail BT api False (Some u) s) =
        ProfileState.calls s @ [UpdateUser (User.id' u) (Profile_payload u d)] \<and>
      Profile_payload u d =
        \<lparr>UpdatePayload.name = ProfileFormData.name d,
         email = ProfileFormData.email d,
         phoneNumber = ProfileFormData.phoneNumber d,
         location =
           \<lparr>LocationUpdate.latitude =
              (case User.location u of Some l \<Rightarrow> Location.latitude l | None \<Rightarrow> 0),
            longitude =
              (case User.location u of Some l \<Rightarrow> Location.longitude l | None \<Rightarrow> 0),
            address = ProfileFormData.address d, city = ProfileFormData.city d,
            state = ProfileFormData.state d, zipCode = ProfileFormData.zipCode d,
            country = ProfileFormData.country d\<rparr>,
         bloodType = ProfileFormData.bloodType d\<rparr>)"
proof (intro conjI impI)
  assume bad: "(\<exists>n. ProfileFormValues.name v = Some n \<and> length n < 2) \<or>
    (\<exists>e. ProfileFormValues.email v = Some e \<and> \<not> isEmail e)"
  then have "\<nexists>d. profileSchema isEmail BT v = Inr d"
    by (auto simp: profileSchema_Inr_iff)
  with profileSchema_cases [of isEmail BT v]
  obtain issues where i: "profileSchema isEmail BT v = Inl issues"
    by blast
  note shape = profileSchema_Inl [OF i]
  have "\<forall>n. ProfileFormValues.name v = Some n \<and> length n < 2 \<longrightarrow>
            (''name'', Custom ''Name must be at least 2 characters'') \<in> set issues"
    by (auto simp: shape at_field_def string_min_def)
  moreover have "\<forall>e. ProfileFormValues.email v = Some e \<and> \<not> isEmail e \<longrightarrow>
            (''email'', Custom ''Please enter a valid email'') \<in> set issues"
    by (auto simp: shape at_field_def string_email_def)
  moreover have "ProfileState.form s = v \<longrightarrow>
            Profile_submit isEmail BT api False (Some u) s =
              s\<lparr>ProfileState.errors := issues\<rparr> \<and>
            ProfileState.calls (Profile_submit isEmail BT api ld user s) =
              ProfileState.calls s"
    using i Profile_submit_blocked [of isEmail BT s issues api u ld user] by auto
  ultimately show "\<exists>issues. profileSchema isEmail BT v = Inl issues \<and>
         (\<forall>n. ProfileFormValues.name v = Some n \<and> length n < 2 \<longrightarrow>
            (''name'', Custom ''Name must be at least 2 characters'') \<in> set issues) \<and>
         (\<forall>e. ProfileFormValues.email v = Some e \<and> \<not> isEmail e \<longrightarrow>
            (''email'', Custom ''Please enter a valid email'') \<in> set issues) \<and>
         (ProfileState.form s = v \<longrightarrow>
            Profile_submit isEmail BT api False (Some u) s =
              s\<lparr>ProfileState.errors := issues\<rparr> \<and>
            ProfileState.calls (Profile_submit isEmail BT api ld user s) =
              ProfileState.calls s)"
    using i by (intro exI [of _ issues]) simp
next
  assume ok: "profileSchema isEmail BT (ProfileState.form s) = Inr d"
  show "ProfileState.calls (Profile_submit isEmail BT api False (Some u) s) =
        ProfileState.calls s @ [UpdateUser (User.id' u) (Profile_payload u d)]"
    by (simp add: Profile_submit_accepted [OF ok] Profile_onSubmit_def Let_def
        split: promise.splits)
next
  show "Profile_payload u d =
        \<lparr>UpdatePayload.name = ProfileFormData.name d,
         email = ProfileFormData.email d,
         phoneNumber = ProfileFormData.phoneNumber d,
         location =
           \<lparr>LocationUpdate.latitude =
              (case User.location u of Some l \<Rightarrow> Location.latitude l | None \<Rightarrow> 0),
            longitude =
              (case User.location u of Some l \<Rightarrow> Location.longitude l | None \<Rightarrow> 0),
            address = ProfileFormData.address d, city = ProfileFormData.city d,
            state = ProfileFormData.state d, zipCode = ProfileFormData.zipCode d,
            country = ProfileFormData.country d\<rparr>,
         bloodType = ProfileFormData.bloodType d\<rparr>"
    by (simp add: Profile_payload_def)
qed

text \<open>The definitions that evaluate a submission of the profile form on the examples.\<close>

lemmas ex_profile_form_defs =
  Profile_defaultValues_def Profile_initial_def ex_BloodType_def ex_isEmail_def
  profileSchema_def string_min_def string_email_def string_optional_def
  nativeEnum_optional_def at_field_def Profile_submit_def Profile_handleSubmit_def
  Profile_onSubmit_def Profile_payload_def ex_api_def ex_requester_def ex_donor_def
  ex_location_def

theorem C4_profile_submission_witness:
  "profileSchema ex_isEmail ex_BloodType
       ((Profile_defaultValues (Some ex_donor))\<lparr>ProfileFormValues.name := Some ''J''\<rparr>) =
     Inl [(''name'', Custom ''Name must be at least 2 characters'')] \<and>
   profileSchema ex_isEmail ex_BloodType
       ((Profile_defaultValues (Some ex_donor))\<lparr>ProfileFormValues.email := Some ''john''\<rparr>) =
     Inl [(''email'', Custom ''Please enter a valid email'')] \<and>
   Profile_submit ex_isEmail ex_BloodType ex_api False (Some ex_donor)
       ((Profile_initial (Some ex_donor))\<lparr>ProfileState.form :=
          (Profile_defaultValues (Some ex_donor))\<lparr>ProfileFormValues.name := Some ''J''\<rparr>\<rparr>) =
     (Profile_initial (Some ex_donor))\<lparr>ProfileState.form :=
          (Profile_defaultValues (Some ex_donor))\<lparr>ProfileFormValues.name := Some ''J''\<rparr>,
        ProfileState.errors := [(''name'', Custom ''Name must be at least 2 characters'')]\<rparr> \<and>
   ProfileState.calls (Profile_submit ex_isEmail ex_BloodType ex_api False (Some ex_donor)
       (Profile_initial (Some ex_donor))) =
     [UpdateUser ''1''
        \<lparr>UpdatePayload.name = ''John Doe'', email = ''john@example.com'',
         phoneNumber = Some [],
         location =
           \<lparr>LocationUpdate.latitude = 0, longitude = 0, address = Some [], city = Some [],
            state = Some [], zipCode = Some [], country = Some []\<rparr>,
         bloodType = Some ''O+''\<rparr>]"
  using
    C4_profile_submission [where isEmail = ex_isEmail and BT = ex_BloodType
      and v = "(Profile_defaultValues (Some ex_donor))\<lparr>ProfileFormValues.name := Some ''J''\<rparr>"
      and s = "(Profile_initial (Some ex_donor))\<lparr>ProfileState.form :=
          (Profile_defaultValues (Some ex_donor))\<lparr>ProfileFormValues.name := Some ''J''\<rparr>\<rparr>"
      and api = ex_api and u = ex_donor, THEN conjunct1]
    C4_profile_submission [where isEmail = ex_isEmail and BT = ex_BloodType
      and v = "(Profile_defaultValues (Some ex_donor))\<lparr>ProfileFormValues.email := Some ''john''\<rparr>"
      and s = "(Profile_initial (Some ex_donor))\<lparr>ProfileState.form :=
          (Profile_defaultValues (Some ex_donor))\<lparr>ProfileFormValues.email := Some ''john''\<rparr>\<rparr>"
      and api = ex_api and u = ex_donor, THEN conjunct1]
    C4_profile_submission [where isEmail = ex_isEmail and BT = ex_BloodType
      and s = "Profile_initial (Some ex_donor)" and api = ex_api and u = ex_donor
      and d = "\<lparr>ProfileFormData.name = ''John Doe'', email = ''john@example.com'',
         phoneNumber = Some [], address = Some [], city = Some [], state = Some [],
         zipCode = Some [], country = Some [], bloodType = Some ''O+''\<rparr>",
      THEN conjunct2]
  by (simp add: ex_profile_form_defs)

text \<open>
  Claim C4 as stated fails: the payload of the update call holds the coordinates 51.5 and
  2.25 of the user's stored location, which are no field of the schema, and the same form
  data gives another payload for a user without a stored location.
\<close>

theorem C4_payload_carries_coordinates:
  "profileSchema ex_isEmail ex_BloodType (Profile_defaultValues (Some ex_requester)) =
     Inr \<lparr>ProfileFormData.name = ''General Hospital'', email = ''desk@hospital.example'',
          phoneNumber = Some ''555-0100'', address = Some ''1 Main Street'',
          city = Some ''Springfield'', state = Some ''IL'', zipCode = Some ''62701'',
          country = Some ''USA'', bloodType = None\<rparr> \<and>
   ProfileState.calls (Profile_submit ex_isEmail ex_BloodType ex_api False (Some ex_requester)
       (Profile_initial (Some ex_requester))) =
     [UpdateUser ''2''
        \<lparr>UpdatePayload.name = ''General Hospital'', email = ''desk@hospital.example'',
         phoneNumber = Some ''555-0100'',
         location =
           \<lparr>LocationUpdate.latitude = 51.5, longitude = 2.25,
            address = Some ''1 Main Street'', city = Some ''Springfield'', state = Some ''IL'',
            zipCode = Some ''62701'', country = Some ''USA''\<rparr>,
         bloodType = None\<rparr>] \<and>
   Profile_payload ex_requester
       \<lparr>ProfileFormData.name = ''General Hospital'', email = ''desk@hospital.example'',
        phoneNumber = Some ''555-0100'', address = Some ''1 Main Street'',
        city = Some ''Springfield'', state = Some ''IL'', zipCode = Some ''62701'',
        country = Some ''USA'', bloodType = None\<rparr> \<noteq>
   Profile_payload (ex_requester\<lparr>User.location := None\<rparr>)
       \<lparr>ProfileFormData.name = ''General Hospital'', email = ''desk@hospital.example'',
        phoneNumber = Some ''555-0100'', address = Some ''1 Main Street'',
        city = Some ''Springfield'', state = Some ''IL'', zipCode = Some ''62701'',
        country = Some ''USA'', bloodType = None\<rparr>"
  by (simp add: ex_profile_form_defs)

end
